theory Spec2Isabelle
  imports Main "HOL-Library.Word"
begin

section \<open>Data of package cng\<close>

text \<open>
  Go's \<open>uint32\<close> is a 32-bit word: \<open>-\<close> wraps, \<open><\<close> and \<open>mod\<close> are unsigned.
  A \<open>[]byte\<close> is a list of 8-bit words.
\<close>

type_synonym uint32 = "32 word"
type_synonym byte = "8 word"

text \<open>
  \<open>bcrypt.KEY_LENGTHS_STRUCT\<close> is declared in the package \<open>internal/bcrypt\<close>; cng.go
  reads its three \<open>uint32\<close> fields \<open>MinLength\<close>, \<open>MaxLength\<close> and \<open>Increment\<close>.
\<close>

record KEY_LENGTHS_STRUCT =
  MinLength :: uint32
  MaxLength :: uint32
  Increment :: uint32

text \<open>
  A Go \<open>error\<close> value is a status the backend returned, a string made by
  \<open>errors.New\<close>, or the package's own error \<open>errOpen\<close> for a failed authentication
  (aes_test.go:137).
\<close>

datatype error = NTStatus uint32 | ErrorString string | errOpen

section \<open>lenU32 (cng.go:30-37)\<close>

text \<open>
  \<open>len(s)\<close> is a Go \<open>int\<close> that is never negative; \<open>math.MaxUint32\<close> is the constant
  4294967295. The result is an \<open>int\<close>.
\<close>

definition MaxUint32 :: int where
  "MaxUint32 = 4294967295"

definition lenU32 :: "byte list \<Rightarrow> int" where
  "lenU32 s = (if int (length s) > MaxUint32 then MaxUint32 else int (length s))"

section \<open>getKeyLengths and keyIsAllowed (cng.go:102-123)\<close>

text \<open>
  \<open>bcrypt.GetProperty\<close> is a call into the backend: the model takes it as the parameter
  \<open>GetProperty\<close>, which gives for a handle either the error of the read or the structure
  the backend wrote. Go returns the pair \<open>(lengths, err)\<close>; following Go's convention that
  the value beside a non-nil error is not a result, a non-nil \<open>err\<close> is \<open>Inl\<close> (the named result
  \<open>lengths\<close> still holds the bytes read at that point, which the sum drops).
\<close>

definition getKeyLengths ::
  "('h \<Rightarrow> error + KEY_LENGTHS_STRUCT) \<Rightarrow> 'h \<Rightarrow> error + KEY_LENGTHS_STRUCT" where
  "getKeyLengths GetProperty h =
     (case GetProperty h of
        Inl err \<Rightarrow> Inl err
      | Inr lengths \<Rightarrow>
          if MinLength lengths > MaxLength lengths
             \<or> (Increment lengths = 0 \<and> MinLength lengths \<noteq> MaxLength lengths)
          then Inl (ErrorString ''invalid BCRYPT_KEY_LENGTHS_STRUCT'')
          else Inr lengths)"

definition keyIsAllowed :: "KEY_LENGTHS_STRUCT \<Rightarrow> uint32 \<Rightarrow> bool" where
  "keyIsAllowed lengths bits =
     (if bits < MinLength lengths \<or> bits > MaxLength lengths then False
      else if Increment lengths = 0 then bits = MinLength lengths
      else (bits - MinLength lengths) mod Increment lengths = 0)"

section \<open>loadOrStoreAlg (cng.go:39-69)\<close>

text \<open>
  The key of \<open>algCache\<close> is the struct \<open>{id, flags, mode}\<close>. A \<open>bcrypt.ALG_HANDLE\<close> is an
  opaque number the backend hands out. \<open>algCache\<close> is a \<open>sync.Map\<close>: a map from keys to the
  values the constructor functions made.
\<close>

type_synonym entryKey = "string \<times> uint32 \<times> string"
type_synonym ALG_HANDLE = nat

text \<open>
  The calls that change the backend are kept in a log, in the order they happen: a
  successful \<open>bcrypt.OpenAlgorithmProvider\<close> and every \<open>bcrypt.CloseAlgorithmProvider\<close>
  (whose own return value the code ignores).
\<close>

datatype backend_call = Opened ALG_HANDLE | Closed ALG_HANDLE

record 'v world =
  algCache :: "entryKey \<rightharpoonup> 'v"
  calls :: "backend_call list"

text \<open>
  One call of \<open>loadOrStoreAlg\<close> with no other goroutine running. What the backend answers to
  \<open>bcrypt.OpenAlgorithmProvider\<close> is the parameter \<open>OpenAlgorithmProvider\<close>; \<open>fn\<close> is the
  caller's constructor (\<open>id'\<close> is the source's \<open>id\<close>). The result is Go's
  \<open>(interface{}, error)\<close> with \<open>Inl\<close> for \<open>return nil, err\<close>, beside the world after the
  call. \<open>algCache.LoadOrStore\<close> looks the key up again and stores only when it is absent.
\<close>

definition loadOrStoreAlg ::
  "(string \<Rightarrow> uint32 \<Rightarrow> error + ALG_HANDLE) \<Rightarrow> string \<Rightarrow> uint32 \<Rightarrow> string
     \<Rightarrow> (ALG_HANDLE \<Rightarrow> error + 'v) \<Rightarrow> 'v world \<Rightarrow> (error + 'v) \<times> 'v world" where
  "loadOrStoreAlg OpenAlgorithmProvider id' flags mode fn w =
     (let entryKey = (id', flags, mode) in
      case algCache w entryKey of
        Some v \<Rightarrow> (Inr v, w)
      | None \<Rightarrow>
          (case OpenAlgorithmProvider id' flags of
             Inl err \<Rightarrow> (Inl err, w)
           | Inr h \<Rightarrow>
               (let w1 = w\<lparr>calls := calls w @ [Opened h]\<rparr> in
                case fn h of
                  Inl err \<Rightarrow> (Inl err, w1\<lparr>calls := calls w1 @ [Closed h]\<rparr>)
                | Inr v \<Rightarrow>
                    (case algCache w1 entryKey of
                       Some existing \<Rightarrow> (Inr existing, w1\<lparr>calls := calls w1 @ [Closed h]\<rparr>)
                     | None \<Rightarrow> (Inr v, w1\<lparr>algCache := (algCache w1)(entryKey \<mapsto> v)\<rparr>)))))"

section \<open>loadOrStoreAlg called from several goroutines\<close>

text \<open>
  Between two calls that touch shared state a goroutine can be overtaken by any other, so
  a call of \<open>loadOrStoreAlg\<close> is cut at these calls: \<open>algCache.Load\<close> (line 50),
  \<open>bcrypt.OpenAlgorithmProvider\<close> (line 54), \<open>fn(h)\<close> (line 58),
  \<open>bcrypt.CloseAlgorithmProvider\<close> (lines 60 and 65) and \<open>algCache.LoadOrStore\<close> (line 63).
  The two operations of \<open>sync.Map\<close> are atomic, and so are the backend's open and close;
  \<open>fn\<close> sees the handle only, as in the model of one caller, and touches neither the cache
  nor the set of open handles, so it is one step as well. A program counter says which call
  a goroutine makes next and holds its locals.
\<close>

datatype 'v pc =
    AtLoad
  | AtOpen
  | AtFn ALG_HANDLE
  | AtCloseErr ALG_HANDLE error
  | AtLoadOrStore ALG_HANDLE 'v
  | AtCloseLoaded ALG_HANDLE 'v
  | Returned "error + 'v"

record 'v goroutine =
  g_key :: entryKey
  g_fn :: "ALG_HANDLE \<Rightarrow> error + 'v"
  g_pc :: "'v pc"

text \<open>The handles that are open in the backend after a log of calls.\<close>

fun apply_call :: "ALG_HANDLE set \<Rightarrow> backend_call \<Rightarrow> ALG_HANDLE set" where
  "apply_call S (Opened h) = insert h S"
| "apply_call S (Closed h) = S - {h}"

definition open_handles :: "backend_call list \<Rightarrow> ALG_HANDLE set" where
  "open_handles cs = foldl apply_call {} cs"

text \<open>
  One atomic call of one goroutine. \<open>answer\<close> is what the backend answers if the call is
  \<open>bcrypt.OpenAlgorithmProvider\<close>: an error, or a handle, which cannot be one that is open
  already. \<open>None\<close>: the goroutine has returned, or the backend cannot give this answer.
\<close>

definition advance ::
  "(error + ALG_HANDLE) \<Rightarrow> 'v world \<Rightarrow> 'v goroutine \<Rightarrow> ('v world \<times> 'v goroutine) option" where
  "advance answer w g =
     (case g_pc g of
        AtLoad \<Rightarrow>
          (case algCache w (g_key g) of
             Some v \<Rightarrow> Some (w, g\<lparr>g_pc := Returned (Inr v)\<rparr>)
           | None \<Rightarrow> Some (w, g\<lparr>g_pc := AtOpen\<rparr>))
      | AtOpen \<Rightarrow>
          (case answer of
             Inl err \<Rightarrow> Some (w, g\<lparr>g_pc := Returned (Inl err)\<rparr>)
           | Inr h \<Rightarrow>
               if h \<in> open_handles (calls w) then None
               else Some (w\<lparr>calls := calls w @ [Opened h]\<rparr>, g\<lparr>g_pc := AtFn h\<rparr>))
      | AtFn h \<Rightarrow>
          (case g_fn g h of
             Inl err \<Rightarrow> Some (w, g\<lparr>g_pc := AtCloseErr h err\<rparr>)
           | Inr v \<Rightarrow> Some (w, g\<lparr>g_pc := AtLoadOrStore h v\<rparr>))
      | AtCloseErr h err \<Rightarrow>
          Some (w\<lparr>calls := calls w @ [Closed h]\<rparr>, g\<lparr>g_pc := Returned (Inl err)\<rparr>)
      | AtLoadOrStore h v \<Rightarrow>
          (case algCache w (g_key g) of
             Some existing \<Rightarrow> Some (w, g\<lparr>g_pc := AtCloseLoaded h existing\<rparr>)
           | None \<Rightarrow>
               Some (w\<lparr>algCache := (algCache w)(g_key g \<mapsto> v)\<rparr>, g\<lparr>g_pc := Returned (Inr v)\<rparr>))
      | AtCloseLoaded h existing \<Rightarrow>
          Some (w\<lparr>calls := calls w @ [Closed h]\<rparr>, g\<lparr>g_pc := Returned (Inr existing)\<rparr>)
      | Returned r \<Rightarrow> None)"

text \<open>
  A schedule says, step by step, which goroutine runs and what the backend answers. Every
  interleaving of the goroutines is the run of some schedule.
\<close>

type_synonym choice = "nat \<times> (error + ALG_HANDLE)"

definition step ::
  "choice \<Rightarrow> 'v world \<times> 'v goroutine list \<Rightarrow> ('v world \<times> 'v goroutine list) option" where
  "step c s =
     (case c of (i, answer) \<Rightarrow>
      case s of (w, gs) \<Rightarrow>
        if i < length gs then
          (case advance answer w (gs ! i) of
             None \<Rightarrow> None
           | Some (w', g') \<Rightarrow> Some (w', gs[i := g']))
        else None)"

fun run ::
  "choice list \<Rightarrow> 'v world \<times> 'v goroutine list \<Rightarrow> ('v world \<times> 'v goroutine list) option" where
  "run [] s = Some s"
| "run (c # cs) s = (case step c s of None \<Rightarrow> None | Some s' \<Rightarrow> run cs s')"




subsection \<open>Accounting for the open handles\<close>






section \<open>The GCM modes of aes.go\<close>

text \<open>
  Modelled from the spec: aes.go, which holds the cipher modes, is not among the sources;
  only its tests are (aes_test.go). The native AEAD primitive of the backend is opaque: the
  model takes it as the two functions of a \<open>platform\<close>, together with the largest
  plaintext the platform seals. \<open>AEAD_encrypt\<close> takes the key handle, the nonce, the
  associated data, the tag length and the plaintext and gives the ciphertext and the tag;
  \<open>AEAD_decrypt\<close> takes the key handle, the nonce, the associated data, the tag and the
  ciphertext and gives the bytes it wrote to the output buffer and whether the tag verified.
\<close>

type_synonym KEY_HANDLE = nat

record platform =
  AEAD_encrypt :: "KEY_HANDLE \<Rightarrow> byte list \<Rightarrow> byte list \<Rightarrow> nat \<Rightarrow> byte list \<Rightarrow> byte list \<times> byte list"
  AEAD_decrypt :: "KEY_HANDLE \<Rightarrow> byte list \<Rightarrow> byte list \<Rightarrow> byte list \<Rightarrow> byte list \<Rightarrow> byte list \<times> bool"
  maxPlaintext :: nat

text \<open>
  Modelled from the spec: the backend "is assumed to work correctly" (section 1). For the
  AEAD primitive that is: the ciphertext is as long as the plaintext, the tag has the length
  asked for, and decrypting what was encrypted, with the same key, nonce and associated data,
  verifies and gives the plaintext back.
\<close>

definition backend_correct :: "platform \<Rightarrow> bool" where
  "backend_correct P =
     (\<forall>kh nonce aad tl plaintext.
        length (fst (AEAD_encrypt P kh nonce aad tl plaintext)) = length plaintext
        \<and> length (snd (AEAD_encrypt P kh nonce aad tl plaintext)) = tl
        \<and> AEAD_decrypt P kh nonce aad (snd (AEAD_encrypt P kh nonce aad tl plaintext))
              (fst (AEAD_encrypt P kh nonce aad tl plaintext)) = (plaintext, True))"

text \<open>
  Modelled from the spec: a fatal precondition violation (a Go panic) is a result of its
  own, apart from the recoverable errors.
\<close>

datatype panic = IncorrectNonceLength | MessageTooLarge | NonceBelowMinimum | CounterWrapped

datatype 'a outcome = Panic panic | Return 'a

text \<open>
  Modelled from the spec: \<open>NewGCM\<close> of aes.go (section 4.4). The standard sizes are 12 bytes
  for the nonce and 16 bytes for the tag; construction, from a key handle and the two sizes,
  fails if both sizes deviate from the standard.
\<close>

definition gcmStandardNonceSize :: nat where
  "gcmStandardNonceSize = 12"

definition gcmTagSize :: nat where
  "gcmTagSize = 16"

record GCMMode =
  kh :: KEY_HANDLE
  nonceLength :: nat
  tagLength :: nat

definition NewGCM :: "KEY_HANDLE \<Rightarrow> nat \<Rightarrow> nat \<Rightarrow> error + GCMMode" where
  "NewGCM k nonceSize tagSize =
     (if nonceSize \<noteq> gcmStandardNonceSize \<and> tagSize \<noteq> gcmTagSize
      then Inl (ErrorString ''GCM tag and nonce sizes are both non-standard'')
      else Inr \<lparr>kh = k, nonceLength = nonceSize, tagLength = tagSize\<rparr>)"

text \<open>
  Modelled from the spec: \<open>Seal\<close> of the GCM mode of aes.go (section 4.4). It fails fatally
  if the nonce has not the configured length or the plaintext is longer than the platform
  allows, and gives the ciphertext followed by the tag otherwise. The tests pass \<open>nil\<close> for
  \<open>dst\<close>, which the model leaves out.
\<close>

definition Seal :: "platform \<Rightarrow> GCMMode \<Rightarrow> byte list \<Rightarrow> byte list \<Rightarrow> byte list \<Rightarrow> byte list outcome" where
  "Seal P g nonce plaintext additionalData =
     (if length nonce \<noteq> nonceLength g then Panic IncorrectNonceLength
      else if length plaintext > maxPlaintext P then Panic MessageTooLarge
      else case AEAD_encrypt P (kh g) nonce additionalData (tagLength g) plaintext of
             (ciphertext, tag) \<Rightarrow> Return (ciphertext @ tag))"

text \<open>
  Modelled from the spec: \<open>Open\<close> of the GCM mode of aes.go (section 4.4). It splits the
  trailing \<open>tagLength\<close> bytes off as the tag, decrypts and verifies; on a tag mismatch or a
  malformed input (one too short to hold a tag) it returns the error \<open>errOpen\<close>
  (aes_test.go:137) and clears the output buffer. The result is paired with the output
  buffer as the call leaves it.
\<close>

definition Open ::
  "platform \<Rightarrow> GCMMode \<Rightarrow> byte list \<Rightarrow> byte list \<Rightarrow> byte list \<Rightarrow> (error + byte list) \<times> byte list" where
  "Open P g nonce ciphertextAndTag additionalData =
     (if length ciphertextAndTag < tagLength g then (Inl errOpen, [])
      else
        let n = length ciphertextAndTag - tagLength g;
            ciphertext = take n ciphertextAndTag;
            tag = drop n ciphertextAndTag
        in case AEAD_decrypt P (kh g) nonce additionalData tag ciphertext of
             (out, ok) \<Rightarrow>
               if ok then (Inr out, out)
               else (Inl errOpen, replicate (length out) 0))"

text \<open>
  Modelled from the spec: the TLS-record mode of aes.go (section 4.5). It wraps a GCM mode
  with the standard sizes and holds the smallest nonce value not yet consumed, initially
  zero; a nonce is read as a big-endian unsigned integer.
\<close>

definition be_nat :: "byte list \<Rightarrow> nat" where
  "be_nat bs = foldl (\<lambda>a b. a * 256 + unat b) 0 bs"

record GCMTLSMode =
  gcm :: GCMMode
  minNextNonce :: nat

definition NewGCMTLS :: "KEY_HANDLE \<Rightarrow> GCMTLSMode" where
  "NewGCMTLS k =
     \<lparr>gcm = \<lparr>kh = k, nonceLength = gcmStandardNonceSize, tagLength = gcmTagSize\<rparr>,
      minNextNonce = 0\<rparr>"

text \<open>
  Modelled from the spec: \<open>Seal\<close> of the TLS-record mode (section 4.5). Before the
  underlying seal it compares the nonce with the stored minimum and fails fatally if the
  nonce is smaller; after a successful seal the minimum is the nonce plus one. The spec
  leaves the wrap of the sequence number (the last 8 bytes of the nonce) out of scope;
  \<open>TestSealAndOpenTLS\<close> (aes_test.go:86 and 100-102) requires a panic for the nonce whose
  last 8 bytes are all \<open>0xff\<close>, and the model fails for the nonces with that sequence
  number. A panic leaves the mode as it was: the test recovers from one and goes on using
  the mode.
\<close>

definition SealTLS ::
  "platform \<Rightarrow> GCMTLSMode \<Rightarrow> byte list \<Rightarrow> byte list \<Rightarrow> byte list
     \<Rightarrow> byte list outcome \<times> GCMTLSMode" where
  "SealTLS P t nonce plaintext additionalData =
     (if be_nat nonce < minNextNonce t then (Panic NonceBelowMinimum, t)
      else if be_nat (drop 4 nonce) = 2 ^ 64 - 1 then (Panic CounterWrapped, t)
      else case Seal P (gcm t) nonce plaintext additionalData of
             Panic p \<Rightarrow> (Panic p, t)
           | Return sealed \<Rightarrow> (Return sealed, t\<lparr>minNextNonce := be_nat nonce + 1\<rparr>))"

text \<open>
  Calls of \<open>Seal\<close> on one TLS-record mode, one after the other, each given as nonce,
  plaintext and associated data: the outcomes in order, and the mode after the last call.
\<close>

fun SealsTLS ::
  "platform \<Rightarrow> GCMTLSMode \<Rightarrow> (byte list \<times> byte list \<times> byte list) list
     \<Rightarrow> byte list outcome list \<times> GCMTLSMode" where
  "SealsTLS P t [] = ([], t)"
| "SealsTLS P t ((nonce, plaintext, additionalData) # cs) =
     (case SealTLS P t nonce plaintext additionalData of
        (r, t') \<Rightarrow> (case SealsTLS P t' cs of (rs, t'') \<Rightarrow> (r # rs, t'')))"

text \<open>
  A platform to run the model on concrete inputs, in place of the native primitive: it
  adds one to every byte, and its tag repeats the sum of the key handle's number and the
  bytes of the nonce, the associated data and the plaintext. Its largest plaintext is
  \<open>math.MaxUint32\<close> bytes: the backend takes the length of a buffer as a 32-bit unsigned
  integer, and a longer buffer cannot be handed over whole (\<open>lenU32\<close>, cng.go:30-37, clamps
  its length).
\<close>

definition example_tag :: "KEY_HANDLE \<Rightarrow> byte list \<Rightarrow> byte list \<Rightarrow> byte list \<Rightarrow> byte" where
  "example_tag k nonce aad plaintext = of_nat k + sum_list nonce + sum_list aad + sum_list plaintext"

definition example_platform :: platform where
  "example_platform =
     \<lparr>AEAD_encrypt = (\<lambda>k nonce aad tl plaintext.
         (map (\<lambda>b. b + 1) plaintext, replicate tl (example_tag k nonce aad plaintext))),
      AEAD_decrypt = (\<lambda>k nonce aad tag ciphertext.
         (map (\<lambda>b. b - 1) ciphertext,
          tag = replicate (length tag) (example_tag k nonce aad (map (\<lambda>b. b - 1) ciphertext)))),
      maxPlaintext = nat MaxUint32\<rparr>"

section \<open>Key lengths\<close>

lemma word_sub_mod_unat:
  fixes a b c :: uint32
  assumes "b \<le> a"
  shows "((a - b) mod c = 0) = ((unat a - unat b) mod unat c = 0)"
proof -
  have "((a - b) mod c = 0) = (unat ((a - b) mod c) = 0)"
    by (simp add: unat_eq_0)
  also have "\<dots> = (unat (a - b) mod unat c = 0)"
    by (simp add: unat_mod)
  also have "\<dots> = ((unat a - unat b) mod unat c = 0)"
    using assms by (simp add: unat_sub)
  finally show ?thesis .
qed

text \<open>
  C4. A candidate bit length is accepted exactly when it lies between the minimum and the
  maximum and, for a positive increment, its distance from the minimum (a subtraction of
  natural numbers, no wrap-around) is a multiple of the increment; for a zero increment
  exactly when it also equals the minimum.
\<close>

theorem keyIsAllowed_iff:
  "keyIsAllowed lengths bits =
     (unat (MinLength lengths) \<le> unat bits \<and> unat bits \<le> unat (MaxLength lengths)
      \<and> (0 < unat (Increment lengths) \<longrightarrow>
           (unat bits - unat (MinLength lengths)) mod unat (Increment lengths) = 0)
      \<and> (unat (Increment lengths) = 0 \<longrightarrow> bits = MinLength lengths))"
proof (cases "bits < MinLength lengths \<or> bits > MaxLength lengths")
  case True
  then show ?thesis
    by (auto simp: keyIsAllowed_def word_less_nat_alt)
next
  case False
  then have le: "MinLength lengths \<le> bits" and le2: "bits \<le> MaxLength lengths"
    by (simp_all add: not_less)
  have range: "unat (MinLength lengths) \<le> unat bits" "unat bits \<le> unat (MaxLength lengths)"
    using le le2 by (simp_all add: word_le_nat_alt)
  show ?thesis
  proof (cases "Increment lengths = 0")
    case True
    with False range show ?thesis
      by (simp add: keyIsAllowed_def)
  next
    case nz: False
    then have pos: "0 < unat (Increment lengths)"
      by (simp add: unat_gt_0)
    from False nz have "keyIsAllowed lengths bits =
        ((bits - MinLength lengths) mod Increment lengths = 0)"
      by (simp add: keyIsAllowed_def)
    also have "\<dots> =
        ((unat bits - unat (MinLength lengths)) mod unat (Increment lengths) = 0)"
      by (rule word_sub_mod_unat [OF le])
    finally show ?thesis
      using range pos by simp
  qed
qed

theorem keyIsAllowed_iff_witness:
  "keyIsAllowed \<lparr>MinLength = 128, MaxLength = 256, Increment = 64\<rparr> 192
   \<and> \<not> keyIsAllowed \<lparr>MinLength = 128, MaxLength = 256, Increment = 64\<rparr> 200
   \<and> \<not> keyIsAllowed \<lparr>MinLength = 128, MaxLength = 128, Increment = 0\<rparr> 129"
  using keyIsAllowed_iff [of "\<lparr>MinLength = 128, MaxLength = 256, Increment = 64\<rparr>" 192]
    keyIsAllowed_iff [of "\<lparr>MinLength = 128, MaxLength = 256, Increment = 64\<rparr>" 200]
    keyIsAllowed_iff [of "\<lparr>MinLength = 128, MaxLength = 128, Increment = 0\<rparr>" 129]
  by simp

text \<open>
  C5. When the backend read succeeded, \<open>getKeyLengths\<close> returns an error exactly when the
  structure read has \<open>MinLength > MaxLength\<close>, or \<open>Increment = 0\<close> with
  \<open>MinLength \<noteq> MaxLength\<close>; the error is then the only result, and every other structure
  is returned unchanged with no error.
\<close>

theorem getKeyLengths_malformed_iff:
  assumes "GetProperty h = Inr lengths"
  shows "((\<exists>err. getKeyLengths GetProperty h = Inl err) =
            (MinLength lengths > MaxLength lengths
             \<or> (Increment lengths = 0 \<and> MinLength lengths \<noteq> MaxLength lengths)))
         \<and> ((\<exists>v. getKeyLengths GetProperty h = Inr v) =
            (\<not> MinLength lengths > MaxLength lengths
             \<and> \<not> (Increment lengths = 0 \<and> MinLength lengths \<noteq> MaxLength lengths)))
         \<and> (\<forall>v. getKeyLengths GetProperty h = Inr v \<longrightarrow> v = lengths)"
  using assms by (auto simp: getKeyLengths_def)

theorem getKeyLengths_malformed_iff_witness:
  "getKeyLengths (\<lambda>h::nat. Inr \<lparr>MinLength = 128, MaxLength = 256, Increment = 64\<rparr>) 7
     = Inr \<lparr>MinLength = 128, MaxLength = 256, Increment = 64\<rparr>
   \<and> (\<exists>err. getKeyLengths (\<lambda>h::nat. Inr \<lparr>MinLength = 256, MaxLength = 128, Increment = 64\<rparr>) 7
         = Inl err)
   \<and> (\<exists>err. getKeyLengths (\<lambda>h::nat. Inr \<lparr>MinLength = 128, MaxLength = 256, Increment = 0\<rparr>) 7
         = Inl err)"
proof -
  let ?ok = "\<lparr>MinLength = 128, MaxLength = 256, Increment = 64\<rparr>"
  let ?bad1 = "\<lparr>MinLength = 256, MaxLength = 128, Increment = 64\<rparr>"
  let ?bad2 = "\<lparr>MinLength = 128, MaxLength = 256, Increment = 0\<rparr>"
  have "\<exists>v. getKeyLengths (\<lambda>h::nat. Inr ?ok) 7 = Inr v"
    using getKeyLengths_malformed_iff [of "\<lambda>h::nat. Inr ?ok" 7 ?ok] by simp
  then have "getKeyLengths (\<lambda>h::nat. Inr ?ok) 7 = Inr ?ok"
    using getKeyLengths_malformed_iff [of "\<lambda>h::nat. Inr ?ok" 7 ?ok] by auto
  moreover have "\<exists>err. getKeyLengths (\<lambda>h::nat. Inr ?bad1) 7 = Inl err"
    using getKeyLengths_malformed_iff [of "\<lambda>h::nat. Inr ?bad1" 7 ?bad1] by simp
  moreover have "\<exists>err. getKeyLengths (\<lambda>h::nat. Inr ?bad2) 7 = Inl err"
    using getKeyLengths_malformed_iff [of "\<lambda>h::nat. Inr ?bad2" 7 ?bad2] by simp
  ultimately show ?thesis by simp
qed

text \<open>
  C10. A structure that \<open>getKeyLengths\<close> returns without error allows its own minimum
  length as a key size.
\<close>

theorem validated_MinLength_allowed:
  assumes "getKeyLengths GetProperty h = Inr lengths"
  shows "keyIsAllowed lengths (MinLength lengths)"
proof -
  from assms have ok: "\<not> MinLength lengths > MaxLength lengths"
    by (auto simp: getKeyLengths_def split: sum.splits if_splits)
  then have "MinLength lengths \<le> MaxLength lengths"
    by (simp add: not_less)
  then show ?thesis
    by (simp add: keyIsAllowed_def not_less)
qed

theorem validated_MinLength_allowed_witness:
  "keyIsAllowed \<lparr>MinLength = 128, MaxLength = 256, Increment = 64\<rparr> 128
   \<and> keyIsAllowed \<lparr>MinLength = 128, MaxLength = 128, Increment = 0\<rparr> 128"
proof -
  let ?a = "\<lparr>MinLength = 128, MaxLength = 256, Increment = 64\<rparr>"
  let ?b = "\<lparr>MinLength = 128, MaxLength = 128, Increment = 0\<rparr>"
  have a: "getKeyLengths (\<lambda>h::nat. Inr ?a) 7 = Inr ?a"
    by (simp add: getKeyLengths_def)
  have b: "getKeyLengths (\<lambda>h::nat. Inr ?b) 7 = Inr ?b"
    by (simp add: getKeyLengths_def)
  show ?thesis
    using validated_MinLength_allowed [OF a] validated_MinLength_allowed [OF b] by simp
qed

section \<open>Clamped lengths\<close>

text \<open>
  C9. \<open>lenU32 s\<close> is the length of \<open>s\<close> when that is at most \<open>2^32 - 1\<close> and exactly
  \<open>2^32 - 1\<close> otherwise, so it never exceeds the largest unsigned 32-bit integer.
\<close>

theorem lenU32_clamps:
  "lenU32 s = (if int (length s) \<le> 2 ^ 32 - 1 then int (length s) else 2 ^ 32 - 1)
   \<and> 0 \<le> lenU32 s \<and> lenU32 s \<le> 2 ^ 32 - 1"
  by (simp add: lenU32_def MaxUint32_def)

lemma lenU32_short: "lenU32 [1, 2, 3] = 3"
  by (simp add: lenU32_def MaxUint32_def)

lemma lenU32_long: "lenU32 (replicate 4294967296 0) = 4294967295"
  by (simp add: lenU32_def MaxUint32_def)

section \<open>The provider cache, one caller\<close>

text \<open>
  C6. On a cache miss: when the backend's open call fails, its error is the result and the
  world is unchanged (nothing is inserted into the cache); when the open succeeds and the
  constructor fails, the constructor's error is the result, the handle just opened has been
  closed (the close is the last backend call, right after the open), and the cache is
  unchanged.
\<close>

theorem loadOrStoreAlg_errors:
  assumes "algCache w (id', flags, mode) = None"
  shows "(\<forall>err. OpenAlgorithmProvider id' flags = Inl err \<longrightarrow>
            loadOrStoreAlg OpenAlgorithmProvider id' flags mode fn w = (Inl err, w))
         \<and> (\<forall>h err. OpenAlgorithmProvider id' flags = Inr h \<and> fn h = Inl err \<longrightarrow>
              fst (loadOrStoreAlg OpenAlgorithmProvider id' flags mode fn w) = Inl err
              \<and> calls (snd (loadOrStoreAlg OpenAlgorithmProvider id' flags mode fn w))
                  = calls w @ [Opened h, Closed h]
              \<and> algCache (snd (loadOrStoreAlg OpenAlgorithmProvider id' flags mode fn w))
                  = algCache w)"
  using assms by (simp add: loadOrStoreAlg_def Let_def)

theorem loadOrStoreAlg_errors_witness:
  "loadOrStoreAlg (\<lambda>id flags. Inl (NTStatus 3221225659)) ''AES'' 0 ''ChainingModeGCM''
       (\<lambda>h. Inr h) \<lparr>algCache = Map.empty, calls = []\<rparr>
     = (Inl (NTStatus 3221225659), \<lparr>algCache = Map.empty, calls = []\<rparr>)
   \<and> fst (loadOrStoreAlg (\<lambda>id flags. Inr 5) ''AES'' 0 ''ChainingModeGCM''
       (\<lambda>h. Inl (ErrorString ''bad'') :: error + nat) \<lparr>algCache = Map.empty, calls = []\<rparr>)
     = Inl (ErrorString ''bad'')
   \<and> calls (snd (loadOrStoreAlg (\<lambda>id flags. Inr 5) ''AES'' 0 ''ChainingModeGCM''
       (\<lambda>h. Inl (ErrorString ''bad'') :: error + nat) \<lparr>algCache = Map.empty, calls = []\<rparr>))
     = [Opened 5, Closed 5]
   \<and> algCache (snd (loadOrStoreAlg (\<lambda>id flags. Inr 5) ''AES'' 0 ''ChainingModeGCM''
       (\<lambda>h. Inl (ErrorString ''bad'') :: error + nat) \<lparr>algCache = Map.empty, calls = []\<rparr>))
     = Map.empty"
proof -
  let ?w = "\<lparr>algCache = Map.empty, calls = []\<rparr> :: nat world"
  have miss: "algCache ?w (''AES'', 0, ''ChainingModeGCM'') = None"
    by simp
  show ?thesis
    using loadOrStoreAlg_errors [OF miss, of "\<lambda>id flags. Inl (NTStatus 3221225659)" "\<lambda>h. Inr h"]
      loadOrStoreAlg_errors [OF miss, of "\<lambda>id flags. Inr 5" "\<lambda>h. Inl (ErrorString ''bad'')"]
    by simp
qed

text \<open>
  The two ways \<open>loadOrStoreAlg\<close> succeeds for one caller. On a hit the cached value is
  returned and nothing else happens: no backend call, no change of the cache. On a miss, when
  the open and the constructor succeed, the constructor's value is stored under the key and
  returned, and the handle stays open.
\<close>

theorem loadOrStoreAlg_success:
  "(\<forall>v. algCache w (id', flags, mode) = Some v \<longrightarrow>
      loadOrStoreAlg OpenAlgorithmProvider id' flags mode fn w = (Inr v, w))
   \<and> (\<forall>h v. algCache w (id', flags, mode) = None \<and> OpenAlgorithmProvider id' flags = Inr h
          \<and> fn h = Inr v \<longrightarrow>
        loadOrStoreAlg OpenAlgorithmProvider id' flags mode fn w
          = (Inr v, \<lparr>algCache = (algCache w)((id', flags, mode) \<mapsto> v),
                     calls = calls w @ [Opened h]\<rparr>))"
  by (simp add: loadOrStoreAlg_def Let_def)

theorem loadOrStoreAlg_success_witness:
  "loadOrStoreAlg (\<lambda>id flags. Inr 5) ''AES'' 0 ''ChainingModeGCM'' (\<lambda>h. Inr (h + 100))
       \<lparr>algCache = Map.empty, calls = []\<rparr>
     = (Inr (105::nat),
        \<lparr>algCache = [(''AES'', 0, ''ChainingModeGCM'') \<mapsto> 105], calls = [Opened 5]\<rparr>)
   \<and> loadOrStoreAlg (\<lambda>id flags. Inr 6) ''AES'' 0 ''ChainingModeGCM'' (\<lambda>h. Inr (h + 100))
       \<lparr>algCache = [(''AES'', 0, ''ChainingModeGCM'') \<mapsto> 105], calls = [Opened 5]\<rparr>
     = (Inr (105::nat),
        \<lparr>algCache = [(''AES'', 0, ''ChainingModeGCM'') \<mapsto> 105], calls = [Opened 5]\<rparr>)"
  using loadOrStoreAlg_success [of "\<lparr>algCache = Map.empty, calls = []\<rparr>"
      "''AES''" 0 "''ChainingModeGCM''" "\<lambda>id flags. Inr 5" "\<lambda>h. Inr (h + 100)"]
    loadOrStoreAlg_success [of
      "\<lparr>algCache = [(''AES'', 0, ''ChainingModeGCM'') \<mapsto> 105], calls = [Opened 5]\<rparr>"
      "''AES''" 0 "''ChainingModeGCM''" "\<lambda>id flags. Inr 6" "\<lambda>h. Inr (h + 100)"]
  by simp

section \<open>The provider cache, many callers\<close>











lemma advance_key:
  assumes "advance a w g = Some (w', g')"
  shows "g_key g' = g_key g"
  using assms
  by (cases "g_pc g") (auto simp: advance_def split: option.splits sum.splits if_splits)












text \<open>
  With no other goroutine running, the atomic calls of one goroutine add up to the
  function \<open>loadOrStoreAlg\<close> above.
\<close>

lemma alone_agrees:
  assumes fresh: "\<And>h. OpenAlgorithmProvider id' flags = Inr h \<Longrightarrow> h \<notin> open_handles (calls w)"
  shows "\<exists>n\<le>4. run (replicate n (0, OpenAlgorithmProvider id' flags))
             (w, [\<lparr>g_key = (id', flags, mode), g_fn = fn, g_pc = AtLoad\<rparr>])
           = Some (snd (loadOrStoreAlg OpenAlgorithmProvider id' flags mode fn w),
                   [\<lparr>g_key = (id', flags, mode), g_fn = fn,
                     g_pc = Returned (fst (loadOrStoreAlg OpenAlgorithmProvider id' flags mode fn w))\<rparr>])"
proof (cases "algCache w (id', flags, mode)")
  case (Some v)
  then show ?thesis
    by (intro exI [of _ 1]) (simp add: step_def advance_def loadOrStoreAlg_def)
next
  case None
  show ?thesis
  proof (cases "OpenAlgorithmProvider id' flags")
    case (Inl err)
    with None show ?thesis
      by (intro exI [of _ 2]) (simp add: step_def advance_def loadOrStoreAlg_def numeral_2_eq_2)
  next
    case (Inr h)
    from fresh [OF Inr] have f: "h \<notin> open_handles (calls w)" .
    show ?thesis
    proof (cases "fn h")
      case fl: (Inl err)
      with None Inr f show ?thesis
        by (intro exI [of _ 4])
          (simp add: step_def advance_def loadOrStoreAlg_def numeral_eq_Suc)
    next
      case fr: (Inr v)
      with None Inr f show ?thesis
        by (intro exI [of _ 4])
          (simp add: step_def advance_def loadOrStoreAlg_def numeral_eq_Suc)
    qed
  qed
qed

section \<open>The cipher modes\<close>

lemma example_platform_correct: "backend_correct example_platform"
  by (simp add: backend_correct_def example_platform_def MaxUint32_def comp_def)

text \<open>
  C8. Construction of the GCM mode fails when the nonce length and the tag length both
  differ from 12 and 16, and succeeds, with the sizes asked for, when at most one of them
  does.
\<close>

theorem NewGCM_sizes:
  "(nonceSize \<noteq> 12 \<and> tagSize \<noteq> 16 \<longrightarrow> (\<exists>err. NewGCM k nonceSize tagSize = Inl err))
   \<and> (nonceSize = 12 \<or> tagSize = 16 \<longrightarrow>
        NewGCM k nonceSize tagSize = Inr \<lparr>kh = k, nonceLength = nonceSize, tagLength = tagSize\<rparr>)"
  by (simp add: NewGCM_def gcmStandardNonceSize_def gcmTagSize_def)

theorem NewGCM_sizes_witness:
  "(\<exists>err. NewGCM 1 (gcmStandardNonceSize - 1) (gcmTagSize - 1) = Inl err)
   \<and> NewGCM 1 (gcmStandardNonceSize - 1) gcmTagSize = Inr \<lparr>kh = 1, nonceLength = 11, tagLength = 16\<rparr>
   \<and> NewGCM 1 gcmStandardNonceSize (gcmTagSize - 1) = Inr \<lparr>kh = 1, nonceLength = 12, tagLength = 15\<rparr>
   \<and> NewGCM 1 gcmStandardNonceSize gcmTagSize = Inr \<lparr>kh = 1, nonceLength = 12, tagLength = 16\<rparr>"
  using NewGCM_sizes [of 11 15 1] NewGCM_sizes [of 11 16 1] NewGCM_sizes [of 12 15 1]
    NewGCM_sizes [of 12 16 1]
  by (simp add: gcmStandardNonceSize_def gcmTagSize_def)

text \<open>
  C2. For every nonce, associated data and input, \<open>Open\<close> either returns the error
  \<open>errOpen\<close>, and then the output buffer holds nothing but zero bytes, or returns the
  plaintext that the backend decrypted and authenticated. An input too short to hold a tag,
  and every input whose tag the backend does not verify, gets the error: no byte the backend
  decrypted reaches the caller.
\<close>

theorem Open_authenticated_or_error:
  "((fst (Open P g nonce input aad) = Inl errOpen
       \<and> set (snd (Open P g nonce input aad)) \<subseteq> {0})
     \<or> (\<exists>plaintext. Open P g nonce input aad = (Inr plaintext, plaintext)
           \<and> tagLength g \<le> length input
           \<and> AEAD_decrypt P (kh g) nonce aad (drop (length input - tagLength g) input)
                (take (length input - tagLength g) input) = (plaintext, True)))
   \<and> (length input < tagLength g \<longrightarrow> Open P g nonce input aad = (Inl errOpen, []))
   \<and> (tagLength g \<le> length input
        \<and> \<not> snd (AEAD_decrypt P (kh g) nonce aad (drop (length input - tagLength g) input)
                (take (length input - tagLength g) input)) \<longrightarrow>
        fst (Open P g nonce input aad) = Inl errOpen
        \<and> set (snd (Open P g nonce input aad)) \<subseteq> {0})"
  by (auto simp: Open_def Let_def split: prod.splits)

lemma example_Seal:
  "Seal example_platform \<lparr>kh = 1, nonceLength = 12, tagLength = 16\<rparr>
     [0x91, 0xc7, 0xa7, 0x54, 0x52, 0xef, 0x10, 0xdb, 0x91, 0xa8, 0x6c, 0xf9] [1, 2, 3] [5, 5, 7]
   = Return ([2, 3, 4] @ replicate 16 53)"
  by (simp add: Seal_def example_platform_def MaxUint32_def example_tag_def)

theorem Open_authenticated_or_error_witness:
  "Open example_platform \<lparr>kh = 1, nonceLength = 12, tagLength = 16\<rparr>
     [0x91, 0xc7, 0xa7, 0x54, 0x52, 0xef, 0x10, 0xdb, 0x91, 0xa8, 0x6c, 0xf9]
     ([2, 3, 4] @ replicate 16 53) [5, 5, 7] = (Inr [1, 2, 3], [1, 2, 3])
   \<and> Open example_platform \<lparr>kh = 1, nonceLength = 12, tagLength = 16\<rparr>
     [0x91, 0xc7, 0xa7, 0x54, 0x52, 0xef, 0x10, 0xdb, 0x91, 0xa8, 0x6c, 0xf9]
     ([2, 3, 4] @ replicate 16 53) [] = (Inl errOpen, [0, 0, 0])
   \<and> Open example_platform \<lparr>kh = 1, nonceLength = 12, tagLength = 16\<rparr>
     [0x91, 0xc7, 0xa7, 0x54, 0x52, 0xef, 0x10, 0xdb, 0x91, 0xa8, 0x6c, 0xf9]
     ([2, 7, 4] @ replicate 16 53) [5, 5, 7] = (Inl errOpen, [0, 0, 0])
   \<and> Open example_platform \<lparr>kh = 1, nonceLength = 12, tagLength = 16\<rparr>
     [0x91, 0xc7, 0xa7, 0x54, 0x52, 0xef, 0x10, 0xdb, 0x91, 0xa8, 0x6c, 0xf9]
     [2, 3, 4] [5, 5, 7] = (Inl errOpen, [])"
proof -
  let ?g = "\<lparr>kh = 1, nonceLength = 12, tagLength = 16\<rparr>"
  let ?n = "[0x91, 0xc7, 0xa7, 0x54, 0x52, 0xef, 0x10, 0xdb, 0x91, 0xa8, 0x6c, 0xf9] :: byte list"
  have ok: "AEAD_decrypt example_platform 1 ?n [5, 5, 7] (replicate 16 53) [2, 3, 4]
              = ([1, 2, 3], True)"
    by (simp add: example_platform_def MaxUint32_def example_tag_def)
  have bad1: "AEAD_decrypt example_platform 1 ?n [] (replicate 16 53) [2, 3, 4]
              = ([1, 2, 3], False)"
    by (simp add: example_platform_def MaxUint32_def example_tag_def)
  have bad2: "AEAD_decrypt example_platform 1 ?n [5, 5, 7] (replicate 16 53) [2, 7, 4]
              = ([1, 6, 3], False)"
    by (simp add: example_platform_def MaxUint32_def example_tag_def)
  have 1: "Open example_platform ?g ?n ([2, 3, 4] @ replicate 16 53) [5, 5, 7]
            = (Inr [1, 2, 3], [1, 2, 3])"
    using Open_authenticated_or_error [of example_platform ?g ?n "[2, 3, 4] @ replicate 16 53" "[5, 5, 7]"] ok
    by (simp add: Open_def)
  have 2: "Open example_platform ?g ?n ([2, 3, 4] @ replicate 16 53) []
            = (Inl errOpen, [0, 0, 0])"
    using Open_authenticated_or_error [of example_platform ?g ?n "[2, 3, 4] @ replicate 16 53" "[]"] bad1
    by (simp add: Open_def)
  have 3: "Open example_platform ?g ?n ([2, 7, 4] @ replicate 16 53) [5, 5, 7]
            = (Inl errOpen, [0, 0, 0])"
    using Open_authenticated_or_error [of example_platform ?g ?n "[2, 7, 4] @ replicate 16 53" "[5, 5, 7]"] bad2
    by (simp add: Open_def)
  have 4: "Open example_platform ?g ?n [2, 3, 4] [5, 5, 7] = (Inl errOpen, [])"
    using Open_authenticated_or_error [of example_platform ?g ?n "[2, 3, 4]" "[5, 5, 7]"]
    by simp
  from 1 2 3 4 show ?thesis by simp
qed

text \<open>
  C3, as amended. On a backend that works correctly, for every nonce of the configured
  length and every associated data: for every plaintext no longer than the platform
  allows, \<open>Seal\<close> returns an output of the plaintext's length plus the tag length, and
  \<open>Open\<close> with the same nonce and associated data returns exactly the plaintext; for every
  longer plaintext \<open>Seal\<close> panics, and there is no output.
\<close>

theorem Seal_Open_round_trip:
  assumes "backend_correct P" "length nonce = nonceLength g"
  shows "(length plaintext \<le> maxPlaintext P \<longrightarrow>
            (\<exists>sealed. Seal P g nonce plaintext aad = Return sealed
               \<and> length sealed = length plaintext + tagLength g
               \<and> Open P g nonce sealed aad = (Inr plaintext, plaintext)))
         \<and> (maxPlaintext P < length plaintext \<longrightarrow>
              Seal P g nonce plaintext aad = Panic MessageTooLarge)"
proof (intro conjI impI)
  assume fits: "length plaintext \<le> maxPlaintext P"
  obtain c t where e: "AEAD_encrypt P (kh g) nonce aad (tagLength g) plaintext = (c, t)"
    by (cases "AEAD_encrypt P (kh g) nonce aad (tagLength g) plaintext")
  from assms(1) have
    "length (fst (AEAD_encrypt P (kh g) nonce aad (tagLength g) plaintext)) = length plaintext"
    "length (snd (AEAD_encrypt P (kh g) nonce aad (tagLength g) plaintext)) = tagLength g"
    "AEAD_decrypt P (kh g) nonce aad (snd (AEAD_encrypt P (kh g) nonce aad (tagLength g) plaintext))
       (fst (AEAD_encrypt P (kh g) nonce aad (tagLength g) plaintext)) = (plaintext, True)"
    unfolding backend_correct_def by blast+
  with e have lc: "length c = length plaintext" and lt: "length t = tagLength g"
    and d: "AEAD_decrypt P (kh g) nonce aad t c = (plaintext, True)"
    by simp_all
  from assms(2) fits e have s: "Seal P g nonce plaintext aad = Return (c @ t)"
    by (simp add: Seal_def)
  from lc lt d have "Open P g nonce (c @ t) aad = (Inr plaintext, plaintext)"
    by (simp add: Open_def)
  with s lc lt show "\<exists>sealed. Seal P g nonce plaintext aad = Return sealed
               \<and> length sealed = length plaintext + tagLength g
               \<and> Open P g nonce sealed aad = (Inr plaintext, plaintext)"
    by simp
next
  assume "maxPlaintext P < length plaintext"
  with assms(2) show "Seal P g nonce plaintext aad = Panic MessageTooLarge"
    by (simp add: Seal_def)
qed

theorem Seal_Open_round_trip_witness:
  "Seal example_platform \<lparr>kh = 1, nonceLength = 12, tagLength = 16\<rparr>
     [0x91, 0xc7, 0xa7, 0x54, 0x52, 0xef, 0x10, 0xdb, 0x91, 0xa8, 0x6c, 0xf9] [1, 2, 3] [5, 5, 7]
     = Return ([2, 3, 4] @ replicate 16 53)
   \<and> length ([2, 3, 4] @ replicate 16 (53::byte)) = 3 + 16
   \<and> Open example_platform \<lparr>kh = 1, nonceLength = 12, tagLength = 16\<rparr>
     [0x91, 0xc7, 0xa7, 0x54, 0x52, 0xef, 0x10, 0xdb, 0x91, 0xa8, 0x6c, 0xf9]
     ([2, 3, 4] @ replicate 16 53) [5, 5, 7] = (Inr [1, 2, 3], [1, 2, 3])
   \<and> Seal example_platform \<lparr>kh = 1, nonceLength = 12, tagLength = 16\<rparr>
     [0x91, 0xc7, 0xa7, 0x54, 0x52, 0xef, 0x10, 0xdb, 0x91, 0xa8, 0x6c, 0xf9]
     (replicate 4294967296 7) [5, 5, 7] = Panic MessageTooLarge"
proof -
  let ?g = "\<lparr>kh = 1, nonceLength = 12, tagLength = 16\<rparr>"
  let ?n = "[0x91, 0xc7, 0xa7, 0x54, 0x52, 0xef, 0x10, 0xdb, 0x91, 0xa8, 0x6c, 0xf9] :: byte list"
  have n: "length ?n = nonceLength ?g" by simp
  have m: "length [1, 2, 3 :: byte] \<le> maxPlaintext example_platform"
    by (simp add: example_platform_def MaxUint32_def)
  have l: "maxPlaintext example_platform < length (replicate 4294967296 (7::byte))"
    by (simp add: example_platform_def MaxUint32_def)
  from Seal_Open_round_trip [OF example_platform_correct n, of "[1, 2, 3]" "[5, 5, 7]"] m
  obtain sealed where a: "Seal example_platform ?g ?n [1, 2, 3] [5, 5, 7] = Return sealed"
    and b: "Open example_platform ?g ?n sealed [5, 5, 7] = (Inr [1, 2, 3], [1, 2, 3])"
    by blast
  from a example_Seal have "sealed = [2, 3, 4] @ replicate 16 53"
    by simp
  moreover from Seal_Open_round_trip [OF example_platform_correct n,
      of "replicate 4294967296 7" "[5, 5, 7]"] l
  have "Seal example_platform ?g ?n (replicate 4294967296 7) [5, 5, 7] = Panic MessageTooLarge"
    by blast
  ultimately show ?thesis using a b by simp
qed

text \<open>
  The claim C3 as stated fails. The backend takes the length of a buffer as a 32-bit
  unsigned integer (\<open>lenU32\<close>, cng.go:30-37), so the largest plaintext of this platform has
  \<open>math.MaxUint32\<close> bytes. A plaintext of \<open>2^32\<close> bytes, which a 64-bit Go program can hold,
  is not sealed, with a valid key and a nonce of the configured length: \<open>Seal\<close> panics
  (section 4.4: the plaintext "must not be silently truncated"), so there is no sealed
  output to open.
\<close>

theorem Seal_too_large_counterexample:
  "backend_correct example_platform
   \<and> NewGCM 1 gcmStandardNonceSize gcmTagSize = Inr \<lparr>kh = 1, nonceLength = 12, tagLength = 16\<rparr>
   \<and> length (replicate 12 (0::byte)) = nonceLength \<lparr>kh = 1, nonceLength = 12, tagLength = 16\<rparr>
   \<and> int (maxPlaintext example_platform) = MaxUint32
   \<and> Seal example_platform \<lparr>kh = 1, nonceLength = 12, tagLength = 16\<rparr>
        (replicate 12 0) (replicate 4294967296 0) [] = Panic MessageTooLarge"
  by (simp add: example_platform_correct NewGCM_def gcmStandardNonceSize_def gcmTagSize_def
      Seal_def) (simp add: example_platform_def MaxUint32_def)

lemma SealTLS_gcm: "gcm (snd (SealTLS P t nonce plaintext aad)) = gcm t"
  by (simp add: SealTLS_def split: outcome.splits)

lemma SealTLS_mono: "minNextNonce t \<le> minNextNonce (snd (SealTLS P t nonce plaintext aad))"
  by (simp add: SealTLS_def split: outcome.splits)

lemma SealsTLS_mono: "minNextNonce t \<le> minNextNonce (snd (SealsTLS P t cs))"
proof (induction cs arbitrary: t)
  case Nil
  show ?case by simp
next
  case (Cons c cs)
  obtain nonce plaintext aad where c: "c = (nonce, plaintext, aad)"
    by (cases c)
  have "minNextNonce t \<le> minNextNonce (snd (SealTLS P t nonce plaintext aad))"
    by (rule SealTLS_mono)
  also have "\<dots> \<le> minNextNonce (snd (SealsTLS P (snd (SealTLS P t nonce plaintext aad)) cs))"
    by (rule Cons.IH)
  finally show ?case
    using c by (auto split: prod.splits)
qed

text \<open>
  C1, as amended. A TLS-record mode starts with the minimum zero. On every seal the 12-byte
  nonce is read as a big-endian unsigned integer and compared with the stored minimum: a
  nonce below the minimum is a fatal precondition violation, which leaves the mode as it
  was; a nonce at or above the minimum whose last 8 bytes are not all \<open>0xff\<close>, with a
  plaintext no longer than the platform allows, is sealed, and the minimum becomes the nonce
  plus one; and a nonce that was sealed once is refused by every later seal of the mode,
  whatever calls came between.
\<close>

theorem SealTLS_nonce_order:
  assumes "gcm t = gcm (NewGCMTLS k)" and "length nonce = 12"
  shows "minNextNonce (NewGCMTLS k) = 0
    \<and> (be_nat nonce < minNextNonce t \<longrightarrow>
          SealTLS P t nonce plaintext aad = (Panic NonceBelowMinimum, t))
    \<and> (minNextNonce t \<le> be_nat nonce \<and> be_nat (drop 4 nonce) \<noteq> 2 ^ 64 - 1
          \<and> length plaintext \<le> maxPlaintext P \<longrightarrow>
          (\<exists>sealed. SealTLS P t nonce plaintext aad
             = (Return sealed, t\<lparr>minNextNonce := be_nat nonce + 1\<rparr>)))
    \<and> (\<forall>sealed t1 cs plaintext' aad'.
          SealTLS P t nonce plaintext aad = (Return sealed, t1) \<longrightarrow>
          SealTLS P (snd (SealsTLS P t1 cs)) nonce plaintext' aad'
            = (Panic NonceBelowMinimum, snd (SealsTLS P t1 cs)))"
proof -
  have 0: "minNextNonce (NewGCMTLS k) = 0"
    by (simp add: NewGCMTLS_def)
  have 1: "be_nat nonce < minNextNonce t \<longrightarrow>
          SealTLS P t nonce plaintext aad = (Panic NonceBelowMinimum, t)"
    by (simp add: SealTLS_def)
  have 2: "minNextNonce t \<le> be_nat nonce \<and> be_nat (drop 4 nonce) \<noteq> 2 ^ 64 - 1
          \<and> length plaintext \<le> maxPlaintext P \<longrightarrow>
          (\<exists>sealed. SealTLS P t nonce plaintext aad
             = (Return sealed, t\<lparr>minNextNonce := be_nat nonce + 1\<rparr>))"
    using assms
    by (auto simp: SealTLS_def Seal_def NewGCMTLS_def gcmStandardNonceSize_def
        split: prod.splits)
  have 3: "SealTLS P (snd (SealsTLS P t1 cs)) nonce plaintext' aad'
            = (Panic NonceBelowMinimum, snd (SealsTLS P t1 cs))"
    if "SealTLS P t nonce plaintext aad = (Return sealed, t1)"
    for sealed t1 cs plaintext' aad'
  proof -
    from that have "minNextNonce t1 = be_nat nonce + 1"
      by (auto simp: SealTLS_def split: if_splits outcome.splits)
    with SealsTLS_mono [of t1 P cs] have "be_nat nonce < minNextNonce (snd (SealsTLS P t1 cs))"
      by simp
    then show ?thesis
      by (simp add: SealTLS_def)
  qed
  from 0 1 2 3 show ?thesis by blast
qed

lemma example_TLS_trace:
  "SealsTLS example_platform (NewGCMTLS 1)
     [([0, 0, 0, 0, 0, 0, 0, 0, 0, 0, 0, 0], [1, 2, 3], [0, 0, 0, 0, 0, 0, 0, 0, 0, 0, 0, 0, 3]),
      ([0, 0, 0, 0, 0, 0, 0, 0, 0, 0, 0, 0], [1, 2, 3], [0, 0, 0, 0, 0, 0, 0, 0, 0, 0, 0, 0, 3]),
      ([0, 0, 0, 0, 0, 0, 0, 0, 0, 0, 0, 1], [1, 2, 3], [0, 0, 0, 0, 0, 0, 0, 0, 0, 0, 0, 0, 3]),
      ([0, 0, 0, 0, 0, 0, 0, 0, 0, 0, 0, 10], [1, 2, 3], [0, 0, 0, 0, 0, 0, 0, 0, 0, 0, 0, 0, 3]),
      ([0, 0, 0, 0, 0, 0, 0, 0, 0, 0, 0, 9], [1, 2, 3], [0, 0, 0, 0, 0, 0, 0, 0, 0, 0, 0, 0, 3])]
   = ([Return ([2, 3, 4] @ replicate 16 10), Panic NonceBelowMinimum,
       Return ([2, 3, 4] @ replicate 16 11), Return ([2, 3, 4] @ replicate 16 20),
       Panic NonceBelowMinimum],
      (NewGCMTLS 1)\<lparr>minNextNonce := 11\<rparr>)"
  by (simp add: SealTLS_def Seal_def NewGCMTLS_def gcmStandardNonceSize_def gcmTagSize_def
      be_nat_def example_platform_def MaxUint32_def example_tag_def)

theorem SealTLS_nonce_order_witness:
  "SealTLS example_platform (NewGCMTLS 1) [0, 0, 0, 0, 0, 0, 0, 0, 0, 0, 0, 0] [1, 2, 3]
       [0, 0, 0, 0, 0, 0, 0, 0, 0, 0, 0, 0, 3]
     = (Return ([2, 3, 4] @ replicate 16 10), (NewGCMTLS 1)\<lparr>minNextNonce := 1\<rparr>)
   \<and> SealTLS example_platform ((NewGCMTLS 1)\<lparr>minNextNonce := 1\<rparr>)
       [0, 0, 0, 0, 0, 0, 0, 0, 0, 0, 0, 0] [1, 2, 3] [0, 0, 0, 0, 0, 0, 0, 0, 0, 0, 0, 0, 3]
     = (Panic NonceBelowMinimum, (NewGCMTLS 1)\<lparr>minNextNonce := 1\<rparr>)
   \<and> fst (SealTLS example_platform
       (snd (SealsTLS example_platform ((NewGCMTLS 1)\<lparr>minNextNonce := 1\<rparr>)
          [([0, 0, 0, 0, 0, 0, 0, 0, 0, 0, 0, 1], [1, 2, 3], []),
           ([0, 0, 0, 0, 0, 0, 0, 0, 0, 0, 0, 10], [1, 2, 3], [])]))
       [0, 0, 0, 0, 0, 0, 0, 0, 0, 0, 0, 0] [4, 5] [])
     = Panic NonceBelowMinimum"
proof -
  let ?t = "NewGCMTLS 1"
  let ?t1 = "(NewGCMTLS 1)\<lparr>minNextNonce := 1\<rparr>"
  let ?n = "[0, 0, 0, 0, 0, 0, 0, 0, 0, 0, 0, 0] :: byte list"
  let ?aad = "[0, 0, 0, 0, 0, 0, 0, 0, 0, 0, 0, 0, 3] :: byte list"
  let ?cs = "[([0, 0, 0, 0, 0, 0, 0, 0, 0, 0, 0, 1], [1, 2, 3], []),
           ([0, 0, 0, 0, 0, 0, 0, 0, 0, 0, 0, 10], [1, 2, 3], [])]
           :: (byte list \<times> byte list \<times> byte list) list"
  have g: "gcm ?t = gcm (NewGCMTLS 1)" "gcm ?t1 = gcm (NewGCMTLS 1)"
    by simp_all
  have l: "length ?n = 12" by simp
  have v: "be_nat ?n = 0" "be_nat (drop 4 ?n) = 0"
    by (simp_all add: be_nat_def)
  have m: "length [1, 2, 3 :: byte] \<le> maxPlaintext example_platform"
    by (simp add: example_platform_def MaxUint32_def)
  from SealTLS_nonce_order [OF g(1) l, of example_platform "[1, 2, 3]" ?aad] v m
  obtain sealed where a: "SealTLS example_platform ?t ?n [1, 2, 3] ?aad
      = (Return sealed, ?t\<lparr>minNextNonce := 1\<rparr>)"
    by auto
  have "SealTLS example_platform ?t ?n [1, 2, 3] ?aad
      = (Return ([2, 3, 4] @ replicate 16 10), ?t1)"
    by (simp add: SealTLS_def Seal_def NewGCMTLS_def gcmStandardNonceSize_def gcmTagSize_def
        be_nat_def example_platform_def MaxUint32_def example_tag_def)
  moreover have "SealTLS example_platform ?t1 ?n [1, 2, 3] ?aad = (Panic NonceBelowMinimum, ?t1)"
    using SealTLS_nonce_order [OF g(2) l, of example_platform "[1, 2, 3]" ?aad] v
    by simp
  moreover have "fst (SealTLS example_platform (snd (SealsTLS example_platform ?t1 ?cs)) ?n [4, 5] [])
      = Panic NonceBelowMinimum"
  proof -
    from SealTLS_nonce_order [OF g(1) l, of example_platform "[1, 2, 3]" ?aad]
    have "\<forall>sealed t1 cs plaintext' aad'.
          SealTLS example_platform ?t ?n [1, 2, 3] ?aad = (Return sealed, t1) \<longrightarrow>
          SealTLS example_platform (snd (SealsTLS example_platform t1 cs)) ?n plaintext' aad'
            = (Panic NonceBelowMinimum, snd (SealsTLS example_platform t1 cs))"
      by (elim conjE)
    with a have "SealTLS example_platform (snd (SealsTLS example_platform ?t1 ?cs)) ?n [4, 5] []
            = (Panic NonceBelowMinimum, snd (SealsTLS example_platform ?t1 ?cs))"
      by blast
    then show ?thesis by (simp only: fst_conv)
  qed
  ultimately show ?thesis by simp
qed

text \<open>
  The claim C1 as stated fails: after the seals of \<open>TestSealAndOpenTLS\<close> (aes_test.go:91-99)
  the minimum is 11, and the seal with the nonce of lines 86 and 100-102, whose value
  \<open>2^64 - 1\<close> is not below the minimum, is a fatal precondition violation all the same.
\<close>

theorem SealTLS_counter_counterexample:
  "snd (SealsTLS example_platform (NewGCMTLS 1)
     [([0, 0, 0, 0, 0, 0, 0, 0, 0, 0, 0, 0], [1, 2, 3], [0, 0, 0, 0, 0, 0, 0, 0, 0, 0, 0, 0, 3]),
      ([0, 0, 0, 0, 0, 0, 0, 0, 0, 0, 0, 0], [1, 2, 3], [0, 0, 0, 0, 0, 0, 0, 0, 0, 0, 0, 0, 3]),
      ([0, 0, 0, 0, 0, 0, 0, 0, 0, 0, 0, 1], [1, 2, 3], [0, 0, 0, 0, 0, 0, 0, 0, 0, 0, 0, 0, 3]),
      ([0, 0, 0, 0, 0, 0, 0, 0, 0, 0, 0, 10], [1, 2, 3], [0, 0, 0, 0, 0, 0, 0, 0, 0, 0, 0, 0, 3]),
      ([0, 0, 0, 0, 0, 0, 0, 0, 0, 0, 0, 9], [1, 2, 3], [0, 0, 0, 0, 0, 0, 0, 0, 0, 0, 0, 0, 3])])
     = (NewGCMTLS 1)\<lparr>minNextNonce := 11\<rparr>
   \<and> minNextNonce ((NewGCMTLS 1)\<lparr>minNextNonce := 11\<rparr>)
     \<le> be_nat [0, 0, 0, 0, 255, 255, 255, 255, 255, 255, 255, 255]
   \<and> length [1, 2, 3 :: byte] \<le> maxPlaintext example_platform
   \<and> SealTLS example_platform ((NewGCMTLS 1)\<lparr>minNextNonce := 11\<rparr>)
        [0, 0, 0, 0, 255, 255, 255, 255, 255, 255, 255, 255] [1, 2, 3]
        [0, 0, 0, 0, 0, 0, 0, 0, 0, 0, 0, 0, 3]
      = (Panic CounterWrapped, (NewGCMTLS 1)\<lparr>minNextNonce := 11\<rparr>)"
proof -
  have v: "be_nat [0, 0, 0, 0, 255, 255, 255, 255, 255, 255, 255, 255] = 18446744073709551615"
    by (simp add: be_nat_def)
  have c: "be_nat [255, 255, 255, 255, 255, 255, 255, 255] = 18446744073709551615"
    by (simp add: be_nat_def)
  have m: "minNextNonce ((NewGCMTLS 1)\<lparr>minNextNonce := 11\<rparr>)
     \<le> be_nat [0, 0, 0, 0, 255, 255, 255, 255, 255, 255, 255, 255]"
    by (simp add: v)
  have l: "length [1, 2, 3 :: byte] \<le> maxPlaintext example_platform"
    by (simp add: example_platform_def MaxUint32_def)
  have p: "SealTLS example_platform ((NewGCMTLS 1)\<lparr>minNextNonce := 11\<rparr>)
        [0, 0, 0, 0, 255, 255, 255, 255, 255, 255, 255, 255] [1, 2, 3]
        [0, 0, 0, 0, 0, 0, 0, 0, 0, 0, 0, 0, 3]
      = (Panic CounterWrapped, (NewGCMTLS 1)\<lparr>minNextNonce := 11\<rparr>)"
    by (simp add: SealTLS_def v c)
  show ?thesis
    by (intro conjI m l p) (simp only: example_TLS_trace snd_conv)
qed

end
